theory Spec2Isabelle
  imports Main "HOL-Library.Word"
begin

unbundle bit_operations_syntax

section \<open>Machine types\<close>

type_synonym u8 = "8 word"
type_synonym u16 = "16 word"
type_synonym u32 = "32 word"

section \<open>What the driver takes from headers\<close>

text \<open>
  The driver is \<^verbatim>\<open>drivers/usb/typec/tcpm/qcom/qcom_pmic_tcpm_pdphy.c\<close>. The
  headers it includes (\<^verbatim>\<open>qcom_pmic_tcpm_pdphy.h\<close>, \<^verbatim>\<open>linux/usb/pd.h\<close>,
  \<^verbatim>\<open>linux/usb/tcpm.h\<close>, the device-tree binding header and \<^verbatim>\<open>linux/regmap.h\<close>)
  are not among the sources.

  Modelled from the spec: the register block of section 6, eleven registers. The
  driver addresses a register as \<^verbatim>\<open>pmic_pdphy->base + USB_PDPHY_..._REG\<close>; the offsets
  are macros of the missing header, so a register is named here by its macro and the
  sum with the base is left abstract.
\<close>

datatype pdphy_reg =
    USB_PDPHY_MSG_CONFIG_REG
  | USB_PDPHY_EN_CONTROL_REG
  | USB_PDPHY_TX_CONTROL_REG
  | USB_PDPHY_TX_SIZE_REG
  | USB_PDPHY_TX_BUFFER_HDR_REG
  | USB_PDPHY_TX_BUFFER_DATA_REG
  | USB_PDPHY_RX_STATUS_REG
  | USB_PDPHY_RX_SIZE_REG
  | USB_PDPHY_RX_BUFFER_REG
  | USB_PDPHY_RX_ACKNOWLEDGE_REG
  | USB_PDPHY_FRAME_FILTER_REG

text \<open>
  Modelled from the spec: the seven interrupt events of section 3 and 4.4, under the
  names the driver's table \<^verbatim>\<open>pm8150b_pdphy_res\<close> and its \<^verbatim>\<open>switch\<close> give them. Their
  numbers are macros of the missing binding header.
\<close>

datatype pdphy_virq =
    PMIC_PDPHY_SIG_TX_IRQ
  | PMIC_PDPHY_SIG_RX_IRQ
  | PMIC_PDPHY_MSG_TX_IRQ
  | PMIC_PDPHY_MSG_RX_IRQ
  | PMIC_PDPHY_MSG_TX_FAIL_IRQ
  | PMIC_PDPHY_MSG_TX_DISCARD_IRQ
  | PMIC_PDPHY_MSG_RX_DISCARD_IRQ

text \<open>The three completion statuses the interrupt handler passes to the port manager.\<close>

datatype tcpm_transmit_status = TCPC_TX_SUCCESS | TCPC_TX_DISCARDED | TCPC_TX_FAILED

text \<open>
  The bit masks, field macros, enum constants and header accessors the driver uses and
  no source file defines are parameters of the model: every function that uses one takes
  a \<open>pdphy_defs\<close>. \<open>TX_CONTROL_RETRY_COUNT\<close> and \<open>TX_CONTROL_FRAME_TYPE\<close> are macros
  with an argument, \<open>pd_header_cnt_le\<close> and \<open>pd_header_rev\<close> read a field of the 16-bit
  message header. A transmit type (\<^verbatim>\<open>enum tcpm_transmit_type\<close>) is the number of the
  enum constant, and \<open>EBUSY\<close> is the errno of that name.
\<close>

record pdphy_defs =
  MSG_CONFIG_PORT_DATA_ROLE :: u32
  MSG_CONFIG_PORT_POWER_ROLE :: u32
  MSG_CONFIG_SPEC_REV_MASK :: u32
  CONTROL_ENABLE :: u32
  FRAME_FILTER_EN_SOP :: u32
  FRAME_FILTER_EN_HARD_RESET :: u32
  TX_CONTROL_SEND_SIGNAL :: u32
  TX_CONTROL_SEND_MSG :: u32
  TX_CONTROL_RETRY_COUNT :: "u32 \<Rightarrow> u32"
  TX_CONTROL_FRAME_TYPE :: "u32 \<Rightarrow> u32"
  PD_REV20 :: u32
  PD_REV30 :: u32
  pd_header_cnt_le :: "u16 \<Rightarrow> u32"
  pd_header_rev :: "u16 \<Rightarrow> u32"
  TCPC_TX_HARD_RESET :: u32
  TCPC_TX_CABLE_RESET :: u32
  EBUSY :: int

text \<open>
  One instance of the parameters, for evaluating the model on concrete inputs: the
  values the mainline kernel headers give these names. No theorem about all parameters
  depends on it.
\<close>

definition mainline_defs :: pdphy_defs where
  "mainline_defs =
     \<lparr> MSG_CONFIG_PORT_DATA_ROLE = 8,
       MSG_CONFIG_PORT_POWER_ROLE = 4,
       MSG_CONFIG_SPEC_REV_MASK = 3,
       CONTROL_ENABLE = 1,
       FRAME_FILTER_EN_SOP = 1,
       FRAME_FILTER_EN_HARD_RESET = 32,
       TX_CONTROL_SEND_SIGNAL = 2,
       TX_CONTROL_SEND_MSG = 1,
       TX_CONTROL_RETRY_COUNT = (\<lambda>n. push_bit 5 (n AND 3)),
       TX_CONTROL_FRAME_TYPE = (\<lambda>n. push_bit 2 (n AND 7)),
       PD_REV20 = 1,
       PD_REV30 = 2,
       pd_header_cnt_le = (\<lambda>h. ucast (drop_bit 12 h AND 7)),
       pd_header_rev = (\<lambda>h. ucast (drop_bit 6 h AND 3)),
       TCPC_TX_HARD_RESET = 5,
       TCPC_TX_CABLE_RESET = 6,
       EBUSY = 16 \<rparr>"

text \<open>
  Modelled from the spec: \<^verbatim>\<open>struct pd_message\<close> (declared in \<^verbatim>\<open>linux/usb/pd.h\<close>) is a
  16-bit header and a payload of at most seven 32-bit objects, 28 bytes. The payload is
  kept as the bytes in memory. \<open>sizeof_header\<close> is \<^verbatim>\<open>sizeof(msg->header)\<close> (the
  driver's comment: \<^verbatim>\<open>sizeof(u16)\<close>), \<open>sizeof_payload\<close> is \<^verbatim>\<open>sizeof(msg.payload)\<close>.
\<close>

record pd_message =
  header :: u16
  payload :: "u8 list"

definition sizeof_header :: u32 where
  "sizeof_header = 2"

definition sizeof_payload :: u32 where
  "sizeof_payload = 28"

text \<open>The two bytes of the header as they lie in memory on the little-endian CPU.\<close>

definition header_bytes :: "u16 \<Rightarrow> u8 list" where
  "header_bytes h = [ucast h, ucast (drop_bit 8 h)]"

section \<open>The device and its environment\<close>

text \<open>
  Every call the driver makes into the kernel is an event, recorded in call order. A
  register event records the call, whether or not the bus then reports a failure. A log
  event keeps the format string of the call, without its newline and its arguments.
  \<open>Schedule_work\<close> is \<^verbatim>\<open>schedule_work(&pmic_pdphy->reset_work)\<close>, the only work the
  driver schedules.
\<close>

datatype event =
    Regmap_read pdphy_reg
  | Regmap_write pdphy_reg u32
  | Regmap_bulk_read pdphy_reg nat
  | Regmap_bulk_write pdphy_reg "u8 list"
  | Spin_lock_irqsave
  | Spin_unlock_irqrestore
  | Regulator_enable
  | Regulator_disable
  | Schedule_work
  | Dev_err string
  | Dev_dbg string
  | Dev_vdbg string
  | Tcpm_pd_hard_reset
  | Tcpm_pd_receive "u8 list"
  | Tcpm_pd_transmit_complete tcpm_transmit_status

text \<open>
  The state the driver works on. \<open>regmap\<close> is the content of the register block as
  \<^verbatim>\<open>regmap_read\<close> returns it; \<open>(reg, i)\<close> is the register \<open>i\<close> places after \<open>reg\<close>,
  which only the bulk accesses reach. \<open>vdd_pdphy\<close> tells whether the supply is on.
  \<open>rets\<close> holds the return codes of the coming fallible kernel calls (the regmap accesses
  and \<^verbatim>\<open>regulator_enable\<close>), one per call in call order; past its end every call
  succeeds. A code other than 0 is a failure, and a failed access leaves the registers
  as they were.
\<close>

record pmic_pdphy =
  regmap :: "pdphy_reg \<times> nat \<Rightarrow> u32"
  vdd_pdphy :: bool
  rets :: "int list"
  trace :: "event list"

definition emit :: "event \<Rightarrow> pmic_pdphy \<Rightarrow> pmic_pdphy" where
  "emit e s = s\<lparr>trace := trace s @ [e]\<rparr>"

definition call_ret :: "pmic_pdphy \<Rightarrow> int \<times> pmic_pdphy" where
  "call_ret s = (case rets s of [] \<Rightarrow> (0, s) | r # rs \<Rightarrow> (r, s\<lparr>rets := rs\<rparr>))"

definition regmap_write :: "pdphy_reg \<Rightarrow> u32 \<Rightarrow> pmic_pdphy \<Rightarrow> int \<times> pmic_pdphy" where
  "regmap_write reg v s =
     (case call_ret (emit (Regmap_write reg v) s) of
        (ret, s1) \<Rightarrow>
          if ret \<noteq> 0 then (ret, s1)
          else (0, s1\<lparr>regmap := (regmap s1)((reg, 0) := v)\<rparr>))"

text \<open>
  \<^verbatim>\<open>regmap_read(map, reg, &val)\<close>: on a failure the C leaves \<^verbatim>\<open>val\<close> as it was; every
  caller then leaves without reading it, and the model returns 0 in its place.
\<close>

definition regmap_read :: "pdphy_reg \<Rightarrow> pmic_pdphy \<Rightarrow> int \<times> u32 \<times> pmic_pdphy" where
  "regmap_read reg s =
     (case call_ret (emit (Regmap_read reg) s) of
        (ret, s1) \<Rightarrow>
          if ret \<noteq> 0 then (ret, 0, s1)
          else (0, regmap s1 (reg, 0), s1))"

definition regmap_bulk_read :: "pdphy_reg \<Rightarrow> nat \<Rightarrow> pmic_pdphy \<Rightarrow> int \<times> u8 list \<times> pmic_pdphy" where
  "regmap_bulk_read reg n s =
     (case call_ret (emit (Regmap_bulk_read reg n) s) of
        (ret, s1) \<Rightarrow>
          if ret \<noteq> 0 then (ret, [], s1)
          else (0, map (\<lambda>i. ucast (regmap s1 (reg, i))) [0..<n], s1))"

text \<open>A bulk write stores byte \<open>i\<close> of the buffer in the register \<open>i\<close> places after \<open>reg\<close>.\<close>

definition bulk_store ::
  "pdphy_reg \<Rightarrow> u8 list \<Rightarrow> (pdphy_reg \<times> nat \<Rightarrow> u32) \<Rightarrow> pdphy_reg \<times> nat \<Rightarrow> u32" where
  "bulk_store reg bs m = (\<lambda>(r, i). if r = reg \<and> i < length bs then ucast (bs ! i) else m (r, i))"

definition regmap_bulk_write :: "pdphy_reg \<Rightarrow> u8 list \<Rightarrow> pmic_pdphy \<Rightarrow> int \<times> pmic_pdphy" where
  "regmap_bulk_write reg bs s =
     (case call_ret (emit (Regmap_bulk_write reg bs) s) of
        (ret, s1) \<Rightarrow>
          if ret \<noteq> 0 then (ret, s1)
          else (0, s1\<lparr>regmap := bulk_store reg bs (regmap s1)\<rparr>))"

text \<open>
  Modelled from the spec: \<^verbatim>\<open>regmap_update_bits\<close> (the regmap core, not among the
  sources) is the read-modify-write of section 4.3: read the register, replace the
  bits of the mask \<open>msk\<close> by those of \<open>v\<close>, write the result back. A failed read ends it.
  The spec names no case in which the write is left out, and the model has none.
\<close>

definition regmap_update_bits :: "pdphy_reg \<Rightarrow> u32 \<Rightarrow> u32 \<Rightarrow> pmic_pdphy \<Rightarrow> int \<times> pmic_pdphy" where
  "regmap_update_bits reg msk v s =
     (case regmap_read reg s of
        (ret, orig, s1) \<Rightarrow>
          if ret \<noteq> 0 then (ret, s1)
          else regmap_write reg ((orig AND NOT msk) OR (v AND msk)) s1)"

definition regulator_enable :: "pmic_pdphy \<Rightarrow> int \<times> pmic_pdphy" where
  "regulator_enable s =
     (case call_ret (emit Regulator_enable s) of
        (ret, s1) \<Rightarrow> if ret \<noteq> 0 then (ret, s1) else (0, s1\<lparr>vdd_pdphy := True\<rparr>))"

text \<open>The driver drops what \<^verbatim>\<open>regulator_disable\<close> returns.\<close>

definition regulator_disable :: "pmic_pdphy \<Rightarrow> pmic_pdphy" where
  "regulator_disable s = (emit Regulator_disable s)\<lparr>vdd_pdphy := False\<rparr>"

definition spin_lock_irqsave :: "pmic_pdphy \<Rightarrow> pmic_pdphy" where
  "spin_lock_irqsave = emit Spin_lock_irqsave"

definition spin_unlock_irqrestore :: "pmic_pdphy \<Rightarrow> pmic_pdphy" where
  "spin_unlock_irqrestore = emit Spin_unlock_irqrestore"

definition dev_err :: "string \<Rightarrow> pmic_pdphy \<Rightarrow> pmic_pdphy" where
  "dev_err m = emit (Dev_err m)"

definition dev_dbg :: "string \<Rightarrow> pmic_pdphy \<Rightarrow> pmic_pdphy" where
  "dev_dbg m = emit (Dev_dbg m)"

definition dev_vdbg :: "string \<Rightarrow> pmic_pdphy \<Rightarrow> pmic_pdphy" where
  "dev_vdbg m = emit (Dev_vdbg m)"

definition schedule_work :: "pmic_pdphy \<Rightarrow> pmic_pdphy" where
  "schedule_work = emit Schedule_work"

definition tcpm_pd_hard_reset :: "pmic_pdphy \<Rightarrow> pmic_pdphy" where
  "tcpm_pd_hard_reset = emit Tcpm_pd_hard_reset"

definition tcpm_pd_receive :: "u8 list \<Rightarrow> pmic_pdphy \<Rightarrow> pmic_pdphy" where
  "tcpm_pd_receive msg = emit (Tcpm_pd_receive msg)"

definition tcpm_pd_transmit_complete :: "tcpm_transmit_status \<Rightarrow> pmic_pdphy \<Rightarrow> pmic_pdphy" where
  "tcpm_pd_transmit_complete st = emit (Tcpm_pd_transmit_complete st)"

section \<open>The reset controller\<close>

definition qcom_pmic_tcpm_pdphy_reset_on :: "pmic_pdphy \<Rightarrow> pmic_pdphy" where
  "qcom_pmic_tcpm_pdphy_reset_on s =
     (case regmap_write USB_PDPHY_TX_CONTROL_REG 0 s of
        (ret, s1) \<Rightarrow>
          if ret \<noteq> 0 then dev_err ''pd_reset_on error'' s1
          else
            (case regmap_write USB_PDPHY_FRAME_FILTER_REG 0 s1 of
               (ret, s2) \<Rightarrow>
                 if ret \<noteq> 0 then dev_err ''pd_reset_on error'' s2
                 else s2))"

definition qcom_pmic_tcpm_pdphy_reset_off :: "pdphy_defs \<Rightarrow> pmic_pdphy \<Rightarrow> pmic_pdphy" where
  "qcom_pmic_tcpm_pdphy_reset_off d s =
     (case regmap_write USB_PDPHY_FRAME_FILTER_REG
             (FRAME_FILTER_EN_SOP d OR FRAME_FILTER_EN_HARD_RESET d) s of
        (ret, s1) \<Rightarrow>
          if ret \<noteq> 0 then dev_err ''pd_reset_off error'' s1
          else s1)"

definition qcom_pmic_tcpm_pdphy_sig_reset_work :: "pdphy_defs \<Rightarrow> pmic_pdphy \<Rightarrow> pmic_pdphy" where
  "qcom_pmic_tcpm_pdphy_sig_reset_work d s =
     (let s1 = spin_lock_irqsave s;
          s2 = qcom_pmic_tcpm_pdphy_reset_on s1;
          s3 = qcom_pmic_tcpm_pdphy_reset_off d s2;
          s4 = spin_unlock_irqrestore s3
      in tcpm_pd_hard_reset s4)"

section \<open>The transmit engine\<close>

definition qcom_pmic_tcpm_pdphy_clear_tx_control_reg :: "pmic_pdphy \<Rightarrow> int \<times> pmic_pdphy" where
  "qcom_pmic_tcpm_pdphy_clear_tx_control_reg s =
     (case regmap_write USB_PDPHY_TX_CONTROL_REG 0 s of
        (ret, s1) \<Rightarrow>
          if ret \<noteq> 0 then (ret, dev_err ''pd_clear_tx_control_reg: clear tx flag'' s1)
          else
            (case regmap_read USB_PDPHY_TX_CONTROL_REG s1 of
               (ret, val, s2) \<Rightarrow>
                 if ret \<noteq> 0 then (ret, dev_err ''pd_clear_tx_control_reg: clear tx flag'' s2)
                 else (ret, s2)))"

text \<open>The label \<^verbatim>\<open>done\<close> of \<^verbatim>\<open>pd_transmit_signal\<close>: unlock, trace, return.\<close>

definition pd_transmit_signal_done :: "int \<Rightarrow> pmic_pdphy \<Rightarrow> int \<times> pmic_pdphy" where
  "pd_transmit_signal_done ret s =
     (ret, dev_vdbg ''pd_transmit_signal: type %d negotiate_rev %d send %d''
             (spin_unlock_irqrestore s))"

definition qcom_pmic_tcpm_pdphy_pd_transmit_signal ::
  "pdphy_defs \<Rightarrow> u32 \<Rightarrow> u32 \<Rightarrow> pmic_pdphy \<Rightarrow> int \<times> pmic_pdphy" where
  "qcom_pmic_tcpm_pdphy_pd_transmit_signal d type negotiated_rev s =
     (case qcom_pmic_tcpm_pdphy_clear_tx_control_reg (spin_lock_irqsave s) of
        (ret, s1) \<Rightarrow>
          if ret \<noteq> 0 then pd_transmit_signal_done ret s1
          else
            (let val = TX_CONTROL_SEND_SIGNAL d;
                 val = (if negotiated_rev = PD_REV30 d
                        then val OR TX_CONTROL_RETRY_COUNT d 2
                        else val OR TX_CONTROL_RETRY_COUNT d 3);
                 val = (if type = TCPC_TX_CABLE_RESET d \<or> type = TCPC_TX_HARD_RESET d
                        then val OR TX_CONTROL_FRAME_TYPE d 1
                        else val)
             in case regmap_write USB_PDPHY_TX_CONTROL_REG val s1 of
                  (ret, s2) \<Rightarrow> pd_transmit_signal_done ret s2))"

text \<open>The label \<^verbatim>\<open>done\<close> of \<^verbatim>\<open>pd_transmit_payload\<close>: unlock, report a failure, return.\<close>

definition pd_transmit_payload_done :: "int \<Rightarrow> pmic_pdphy \<Rightarrow> int \<times> pmic_pdphy" where
  "pd_transmit_payload_done ret s =
     (let s1 = spin_unlock_irqrestore s
      in (ret, if ret \<noteq> 0
               then dev_err ''pd_transmit_payload: %d hdr %*ph data %*ph ret %d'' s1
               else s1))"

text \<open>
  The payload is written from \<^verbatim>\<open>&msg->payload\<close> for \<open>txbuf_len\<close> bytes. The count field
  of a real header is at most 7, so that \<open>txbuf_len\<close> is at most the 28 bytes of the
  payload; for a parameter \<open>pd_header_cnt_le\<close> that returns more, the model writes the
  payload and stops there.
\<close>

definition qcom_pmic_tcpm_pdphy_pd_transmit_payload ::
  "pdphy_defs \<Rightarrow> u32 \<Rightarrow> pd_message \<Rightarrow> u32 \<Rightarrow> pmic_pdphy \<Rightarrow> int \<times> pmic_pdphy" where
  "qcom_pmic_tcpm_pdphy_pd_transmit_payload d type msg negotiated_rev s =
     (case regmap_read USB_PDPHY_RX_ACKNOWLEDGE_REG (spin_lock_irqsave s) of
        (ret, val, s1) \<Rightarrow>
     if ret \<noteq> 0 then pd_transmit_payload_done ret s1
     else if val \<noteq> 0 then
       pd_transmit_payload_done (- EBUSY d)
         (dev_err ''pd_transmit_payload: RX message pending'' s1)
     else
     (case qcom_pmic_tcpm_pdphy_clear_tx_control_reg s1 of
        (ret, s2) \<Rightarrow>
     if ret \<noteq> 0 then pd_transmit_payload_done ret s2
     else
     (let hdr_len = sizeof_header;
          txbuf_len = pd_header_cnt_le d (header msg) * 4;
          txsize_len = hdr_len + txbuf_len - 1
      in
     (case regmap_bulk_write USB_PDPHY_TX_BUFFER_HDR_REG
             (take (unat hdr_len) (header_bytes (header msg))) s2 of
        (ret, s3) \<Rightarrow>
     if ret \<noteq> 0 then pd_transmit_payload_done ret s3
     else
     (case (if txbuf_len \<noteq> 0
            then regmap_bulk_write USB_PDPHY_TX_BUFFER_DATA_REG
                   (take (unat txbuf_len) (payload msg)) s3
            else (ret, s3)) of
        (ret, s4) \<Rightarrow>
     if ret \<noteq> 0 then pd_transmit_payload_done ret s4
     else
     (case regmap_write USB_PDPHY_TX_SIZE_REG txsize_len s4 of
        (ret, s5) \<Rightarrow>
     if ret \<noteq> 0 then pd_transmit_payload_done ret s5
     else
     (case qcom_pmic_tcpm_pdphy_clear_tx_control_reg s5 of
        (ret, s6) \<Rightarrow>
     if ret \<noteq> 0 then pd_transmit_payload_done ret s6
     else
     (let val = TX_CONTROL_FRAME_TYPE d type OR TX_CONTROL_SEND_MSG d;
          val = (if pd_header_rev d (header msg) = PD_REV30 d
                 then val OR TX_CONTROL_RETRY_COUNT d 2
                 else val OR TX_CONTROL_RETRY_COUNT d 3)
      in case regmap_write USB_PDPHY_TX_CONTROL_REG val s6 of
           (ret, s7) \<Rightarrow> pd_transmit_payload_done ret s7))))))))"

text \<open>\<^verbatim>\<open>msg\<close> is a pointer: \<open>None\<close> is the null pointer of a signal-only request.\<close>

definition qcom_pmic_tcpm_pdphy_pd_transmit ::
  "pdphy_defs \<Rightarrow> u32 \<Rightarrow> pd_message option \<Rightarrow> u32 \<Rightarrow> pmic_pdphy \<Rightarrow> int \<times> pmic_pdphy" where
  "qcom_pmic_tcpm_pdphy_pd_transmit d type msg negotiated_rev s =
     (case (case msg of
              Some m \<Rightarrow> qcom_pmic_tcpm_pdphy_pd_transmit_payload d type m negotiated_rev s
            | None \<Rightarrow> qcom_pmic_tcpm_pdphy_pd_transmit_signal d type negotiated_rev s) of
        (ret, s1) \<Rightarrow>
          (ret, if ret \<noteq> 0 then dev_dbg ''pd_transmit: type %x result %d'' s1 else s1))"

section \<open>The receive engine\<close>

text \<open>
  The label \<^verbatim>\<open>done\<close> of \<^verbatim>\<open>pd_receive\<close>: unlock, and when \<^verbatim>\<open>ret\<close> is 0 hand \<^verbatim>\<open>msg\<close> to
  the port manager.
\<close>

definition pd_receive_done :: "int \<Rightarrow> u8 list \<Rightarrow> pmic_pdphy \<Rightarrow> pmic_pdphy" where
  "pd_receive_done ret msg s =
     (let s1 = spin_unlock_irqrestore s
      in if ret = 0
         then tcpm_pd_receive msg (dev_vdbg ''pd_receive: handing %d bytes to tcpm'' s1)
         else s1)"

text \<open>
  \<^verbatim>\<open>struct pd_message msg\<close> is a local variable with no initialiser, and the bulk read
  fills it through \<^verbatim>\<open>(u8 *)&msg\<close>. The model keeps it as the bytes in memory: \<open>msg0\<close>
  is what the stack holds when the function is entered, and a successful bulk read
  of \<open>n\<close> bytes replaces the first \<open>n\<close> of them. The variable \<^verbatim>\<open>size\<close> of the C
  is \<open>rx_size\<close> here.
\<close>

definition qcom_pmic_tcpm_pdphy_pd_receive :: "u8 list \<Rightarrow> pmic_pdphy \<Rightarrow> pmic_pdphy" where
  "qcom_pmic_tcpm_pdphy_pd_receive msg0 s =
     (case regmap_read USB_PDPHY_RX_SIZE_REG (spin_lock_irqsave s) of
        (ret, rx_size, s1) \<Rightarrow>
     if ret \<noteq> 0 then pd_receive_done ret msg0 s1
     else if rx_size < 1 \<or> rx_size > sizeof_payload then
       pd_receive_done ret msg0 (dev_dbg ''pd_receive: invalid size %d'' s1)
     else
     (let rx_size = rx_size + 1
      in
     (case regmap_read USB_PDPHY_RX_STATUS_REG s1 of
        (ret, rx_status, s2) \<Rightarrow>
     if ret \<noteq> 0 then pd_receive_done ret msg0 s2
     else
     (case regmap_bulk_read USB_PDPHY_RX_BUFFER_REG (unat rx_size) s2 of
        (ret, bs, s3) \<Rightarrow>
     if ret \<noteq> 0 then pd_receive_done ret msg0 s3
     else
     (let msg = bs @ drop (length bs) msg0
      in case regmap_write USB_PDPHY_RX_ACKNOWLEDGE_REG 0 s3 of
           (ret, s4) \<Rightarrow> pd_receive_done ret msg s4)))))"

section \<open>The interrupt dispatcher\<close>

text \<open>
  The handler switches on \<^verbatim>\<open>irq_data->virq\<close>; six of the seven events have a case,
  there is no default, and it returns \<^verbatim>\<open>IRQ_HANDLED\<close> whatever the event. \<open>msg0\<close> is
  the stack content that \<^verbatim>\<open>pd_receive\<close> finds.
\<close>

definition qcom_pmic_tcpm_pdphy_isr :: "pdphy_virq \<Rightarrow> u8 list \<Rightarrow> pmic_pdphy \<Rightarrow> pmic_pdphy" where
  "qcom_pmic_tcpm_pdphy_isr virq msg0 s =
     (case virq of
        PMIC_PDPHY_SIG_TX_IRQ \<Rightarrow> dev_err ''isr: tx_sig'' s
      | PMIC_PDPHY_SIG_RX_IRQ \<Rightarrow> schedule_work s
      | PMIC_PDPHY_MSG_TX_IRQ \<Rightarrow> tcpm_pd_transmit_complete TCPC_TX_SUCCESS s
      | PMIC_PDPHY_MSG_RX_IRQ \<Rightarrow> qcom_pmic_tcpm_pdphy_pd_receive msg0 s
      | PMIC_PDPHY_MSG_TX_FAIL_IRQ \<Rightarrow> tcpm_pd_transmit_complete TCPC_TX_FAILED s
      | PMIC_PDPHY_MSG_TX_DISCARD_IRQ \<Rightarrow> tcpm_pd_transmit_complete TCPC_TX_DISCARDED s
      | PMIC_PDPHY_MSG_RX_DISCARD_IRQ \<Rightarrow> s)"

section \<open>Roles and power\<close>

definition qcom_pmic_tcpm_pdphy_set_roles ::
  "pdphy_defs \<Rightarrow> bool \<Rightarrow> bool \<Rightarrow> pmic_pdphy \<Rightarrow> int \<times> pmic_pdphy" where
  "qcom_pmic_tcpm_pdphy_set_roles d data_role_host power_role_src s =
     (case regmap_update_bits USB_PDPHY_MSG_CONFIG_REG
             (MSG_CONFIG_PORT_DATA_ROLE d OR MSG_CONFIG_PORT_POWER_ROLE d)
             (push_bit 3 (of_bool data_role_host) OR push_bit 2 (of_bool power_role_src))
             (spin_lock_irqsave s) of
        (ret, s1) \<Rightarrow>
          (ret, dev_dbg ''pdphy_set_roles: data_role_host=%d power_role_src=%d''
                  (spin_unlock_irqrestore s1)))"

text \<open>The label \<^verbatim>\<open>done\<close> of \<^verbatim>\<open>pdphy_enable\<close>: on a failure switch the supply off and report.\<close>

definition pdphy_enable_done :: "int \<Rightarrow> pmic_pdphy \<Rightarrow> int \<times> pmic_pdphy" where
  "pdphy_enable_done ret s =
     (ret, if ret \<noteq> 0 then dev_err ''pdphy_enable fail %d'' (regulator_disable s) else s)"

definition qcom_pmic_tcpm_pdphy_enable :: "pdphy_defs \<Rightarrow> pmic_pdphy \<Rightarrow> int \<times> pmic_pdphy" where
  "qcom_pmic_tcpm_pdphy_enable d s =
     (case regulator_enable s of
        (ret, s1) \<Rightarrow>
     if ret \<noteq> 0 then (ret, s1)
     else
     (case regmap_update_bits USB_PDPHY_MSG_CONFIG_REG
             (MSG_CONFIG_SPEC_REV_MASK d) (PD_REV20 d) s1 of
        (ret, s2) \<Rightarrow>
     if ret \<noteq> 0 then pdphy_enable_done ret s2
     else
     (case regmap_write USB_PDPHY_EN_CONTROL_REG 0 s2 of
        (ret, s3) \<Rightarrow>
     if ret \<noteq> 0 then pdphy_enable_done ret s3
     else
     (case regmap_write USB_PDPHY_EN_CONTROL_REG (CONTROL_ENABLE d) s3 of
        (ret, s4) \<Rightarrow>
     if ret \<noteq> 0 then pdphy_enable_done ret s4
     else pdphy_enable_done ret (qcom_pmic_tcpm_pdphy_reset_off d s4)))))"

section \<open>Reading a run\<close>

text \<open>The events a run from \<open>s\<close> to \<open>s'\<close> added to the trace.\<close>

definition events_since :: "pmic_pdphy \<Rightarrow> pmic_pdphy \<Rightarrow> event list" where
  "events_since s s' = drop (length (trace s)) (trace s')"

text \<open>The register writes of a trace, single and bulk.\<close>

fun is_write :: "event \<Rightarrow> bool" where
  "is_write (Regmap_write reg v) = True"
| "is_write (Regmap_bulk_write reg bs) = True"
| "is_write e = False"

text \<open>The values that \<^verbatim>\<open>regmap_write\<close> was called with for one register, in call order.\<close>

fun writes_to :: "pdphy_reg \<Rightarrow> event list \<Rightarrow> u32 list" where
  "writes_to reg [] = []"
| "writes_to reg (Regmap_write r v # es) =
     (if r = reg then v # writes_to reg es else writes_to reg es)"
| "writes_to reg (e # es) = writes_to reg es"

text \<open>The calls into the port manager.\<close>

fun is_notification :: "event \<Rightarrow> bool" where
  "is_notification Tcpm_pd_hard_reset = True"
| "is_notification (Tcpm_pd_receive msg) = True"
| "is_notification (Tcpm_pd_transmit_complete st) = True"
| "is_notification e = False"

text \<open>
  \<open>nth_ret rs i\<close> is the return code of the fallible call number \<open>i\<close> (from 0) of a
  run that starts with the codes \<open>rs\<close>; \<open>all_ok n s\<close> says that the first \<open>n\<close> fallible
  calls of a run from \<open>s\<close> succeed.
\<close>

definition nth_ret :: "int list \<Rightarrow> nat \<Rightarrow> int" where
  "nth_ret rs i = (if i < length rs then rs ! i else 0)"

definition all_ok :: "nat \<Rightarrow> pmic_pdphy \<Rightarrow> bool" where
  "all_ok n s = list_all (\<lambda>r. r = 0) (take n (rets s))"

text \<open>A device at rest, for evaluating the model: every register 0, every call succeeds.\<close>

definition idle :: pmic_pdphy where
  "idle = \<lparr>regmap = (\<lambda>a. 0), vdd_pdphy = False, rets = [], trace = []\<rparr>"

section \<open>The kernel calls, step by step\<close>

lemma nth_ret_tl [simp]: "nth_ret (tl rs) i = nth_ret rs (Suc i)"
  by (cases rs) (auto simp: nth_ret_def)

lemma all_ok_0 [simp]: "all_ok 0 s"
  by (simp add: all_ok_def)

lemma all_ok_Suc: "all_ok (Suc n) s \<longleftrightarrow> all_ok n s \<and> nth_ret (rets s) n = 0"
  by (auto simp: all_ok_def nth_ret_def take_Suc_conv_app_nth)

lemma call_ret_eq: "call_ret s = (nth_ret (rets s) 0, s\<lparr>rets := tl (rets s)\<rparr>)"
  by (cases "rets s") (auto simp: call_ret_def nth_ret_def)

lemma emit_sel [simp]:
  "trace (emit e s) = trace s @ [e]"
  "rets (emit e s) = rets s"
  "regmap (emit e s) = regmap s"
  "vdd_pdphy (emit e s) = vdd_pdphy s"
  by (simp_all add: emit_def)

lemma regmap_write_sel [simp]:
  "fst (regmap_write reg v s) = nth_ret (rets s) 0"
  "trace (snd (regmap_write reg v s)) = trace s @ [Regmap_write reg v]"
  "rets (snd (regmap_write reg v s)) = tl (rets s)"
  "regmap (snd (regmap_write reg v s)) =
     (if nth_ret (rets s) 0 = 0 then (regmap s)((reg, 0) := v) else regmap s)"
  "vdd_pdphy (snd (regmap_write reg v s)) = vdd_pdphy s"
  by (simp_all add: regmap_write_def call_ret_eq)

lemma regmap_read_sel [simp]:
  "fst (regmap_read reg s) = nth_ret (rets s) 0"
  "fst (snd (regmap_read reg s)) = (if nth_ret (rets s) 0 = 0 then regmap s (reg, 0) else 0)"
  "trace (snd (snd (regmap_read reg s))) = trace s @ [Regmap_read reg]"
  "rets (snd (snd (regmap_read reg s))) = tl (rets s)"
  "regmap (snd (snd (regmap_read reg s))) = regmap s"
  "vdd_pdphy (snd (snd (regmap_read reg s))) = vdd_pdphy s"
  by (simp_all add: regmap_read_def call_ret_eq)

lemma regmap_bulk_read_sel [simp]:
  "fst (regmap_bulk_read reg n s) = nth_ret (rets s) 0"
  "fst (snd (regmap_bulk_read reg n s)) =
     (if nth_ret (rets s) 0 = 0 then map (\<lambda>i. ucast (regmap s (reg, i))) [0..<n] else [])"
  "trace (snd (snd (regmap_bulk_read reg n s))) = trace s @ [Regmap_bulk_read reg n]"
  "rets (snd (snd (regmap_bulk_read reg n s))) = tl (rets s)"
  "regmap (snd (snd (regmap_bulk_read reg n s))) = regmap s"
  "vdd_pdphy (snd (snd (regmap_bulk_read reg n s))) = vdd_pdphy s"
  by (simp_all add: regmap_bulk_read_def call_ret_eq)

lemma regmap_bulk_write_sel [simp]:
  "fst (regmap_bulk_write reg bs s) = nth_ret (rets s) 0"
  "trace (snd (regmap_bulk_write reg bs s)) = trace s @ [Regmap_bulk_write reg bs]"
  "rets (snd (regmap_bulk_write reg bs s)) = tl (rets s)"
  "regmap (snd (regmap_bulk_write reg bs s)) =
     (if nth_ret (rets s) 0 = 0 then bulk_store reg bs (regmap s) else regmap s)"
  "vdd_pdphy (snd (regmap_bulk_write reg bs s)) = vdd_pdphy s"
  by (simp_all add: regmap_bulk_write_def call_ret_eq)

lemma regulator_enable_sel [simp]:
  "fst (regulator_enable s) = nth_ret (rets s) 0"
  "trace (snd (regulator_enable s)) = trace s @ [Regulator_enable]"
  "rets (snd (regulator_enable s)) = tl (rets s)"
  "regmap (snd (regulator_enable s)) = regmap s"
  "vdd_pdphy (snd (regulator_enable s)) = (nth_ret (rets s) 0 = 0 \<or> vdd_pdphy s)"
  by (simp_all add: regulator_enable_def call_ret_eq)

lemma regulator_disable_sel [simp]:
  "trace (regulator_disable s) = trace s @ [Regulator_disable]"
  "rets (regulator_disable s) = rets s"
  "regmap (regulator_disable s) = regmap s"
  "vdd_pdphy (regulator_disable s) = False"
  by (simp_all add: regulator_disable_def)

lemmas kernel_defs =
  spin_lock_irqsave_def spin_unlock_irqrestore_def dev_err_def dev_dbg_def dev_vdbg_def
  schedule_work_def tcpm_pd_hard_reset_def tcpm_pd_receive_def tcpm_pd_transmit_complete_def

text \<open>The two reset primitives: what they add to the trace and how many codes they use.\<close>

lemma reset_on_sel:
  "trace (qcom_pmic_tcpm_pdphy_reset_on s) = trace s @
     (if nth_ret (rets s) 0 \<noteq> 0
      then [Regmap_write USB_PDPHY_TX_CONTROL_REG 0, Dev_err ''pd_reset_on error'']
      else if nth_ret (rets s) 1 \<noteq> 0
      then [Regmap_write USB_PDPHY_TX_CONTROL_REG 0, Regmap_write USB_PDPHY_FRAME_FILTER_REG 0,
            Dev_err ''pd_reset_on error'']
      else [Regmap_write USB_PDPHY_TX_CONTROL_REG 0, Regmap_write USB_PDPHY_FRAME_FILTER_REG 0])"
  "rets (qcom_pmic_tcpm_pdphy_reset_on s) =
     (if nth_ret (rets s) 0 \<noteq> 0 then tl (rets s) else tl (tl (rets s)))"
  by (simp_all add: qcom_pmic_tcpm_pdphy_reset_on_def kernel_defs case_prod_beta)

lemma reset_off_sel:
  "trace (qcom_pmic_tcpm_pdphy_reset_off d s) = trace s @
     Regmap_write USB_PDPHY_FRAME_FILTER_REG
       (FRAME_FILTER_EN_SOP d OR FRAME_FILTER_EN_HARD_RESET d) #
     (if nth_ret (rets s) 0 \<noteq> 0 then [Dev_err ''pd_reset_off error''] else [])"
  "rets (qcom_pmic_tcpm_pdphy_reset_off d s) = tl (rets s)"
  "vdd_pdphy (qcom_pmic_tcpm_pdphy_reset_off d s) = vdd_pdphy s"
  by (simp_all add: qcom_pmic_tcpm_pdphy_reset_off_def kernel_defs case_prod_beta)

section \<open>The paths through the longer functions\<close>

text \<open>
  \<^verbatim>\<open>pd_transmit_payload\<close> leaves at the first call that fails. \<open>r i\<close> is the return
  code of call \<open>i\<close>, \<open>a\<close> the value read from the RX acknowledge register and \<open>n\<close> the
  payload length, which decides whether the payload is written at all.
\<close>

lemma transmit_payload_paths:
  fixes r :: "nat \<Rightarrow> int" and a n :: u32
  assumes
   "\<lbrakk>r 0 \<noteq> 0\<rbrakk> \<Longrightarrow> P"
   "\<lbrakk>r 0 = 0; a \<noteq> 0\<rbrakk> \<Longrightarrow> P"
   "\<lbrakk>r 0 = 0; a = 0; r 1 \<noteq> 0\<rbrakk> \<Longrightarrow> P"
   "\<lbrakk>r 0 = 0; a = 0; r 1 = 0; r 2 \<noteq> 0\<rbrakk> \<Longrightarrow> P"
   "\<lbrakk>r 0 = 0; a = 0; r 1 = 0; r 2 = 0; r 3 \<noteq> 0\<rbrakk> \<Longrightarrow> P"
   "\<lbrakk>r 0 = 0; a = 0; r 1 = 0; r 2 = 0; r 3 = 0; n = 0; r 4 \<noteq> 0\<rbrakk> \<Longrightarrow> P"
   "\<lbrakk>r 0 = 0; a = 0; r 1 = 0; r 2 = 0; r 3 = 0; n = 0; r 4 = 0; r 5 \<noteq> 0\<rbrakk> \<Longrightarrow> P"
   "\<lbrakk>r 0 = 0; a = 0; r 1 = 0; r 2 = 0; r 3 = 0; n = 0; r 4 = 0; r 5 = 0; r 6 \<noteq> 0\<rbrakk> \<Longrightarrow> P"
   "\<lbrakk>r 0 = 0; a = 0; r 1 = 0; r 2 = 0; r 3 = 0; n = 0; r 4 = 0; r 5 = 0; r 6 = 0\<rbrakk> \<Longrightarrow> P"
   "\<lbrakk>r 0 = 0; a = 0; r 1 = 0; r 2 = 0; r 3 = 0; n \<noteq> 0; r 4 \<noteq> 0\<rbrakk> \<Longrightarrow> P"
   "\<lbrakk>r 0 = 0; a = 0; r 1 = 0; r 2 = 0; r 3 = 0; n \<noteq> 0; r 4 = 0; r 5 \<noteq> 0\<rbrakk> \<Longrightarrow> P"
   "\<lbrakk>r 0 = 0; a = 0; r 1 = 0; r 2 = 0; r 3 = 0; n \<noteq> 0; r 4 = 0; r 5 = 0; r 6 \<noteq> 0\<rbrakk> \<Longrightarrow> P"
   "\<lbrakk>r 0 = 0; a = 0; r 1 = 0; r 2 = 0; r 3 = 0; n \<noteq> 0; r 4 = 0; r 5 = 0; r 6 = 0; r 7 \<noteq> 0\<rbrakk> \<Longrightarrow> P"
   "\<lbrakk>r 0 = 0; a = 0; r 1 = 0; r 2 = 0; r 3 = 0; n \<noteq> 0; r 4 = 0; r 5 = 0; r 6 = 0; r 7 = 0\<rbrakk> \<Longrightarrow> P"
  shows P
  using assms by blast

lemmas transmit_payload_defs =
  qcom_pmic_tcpm_pdphy_pd_transmit_payload_def pd_transmit_payload_done_def
  qcom_pmic_tcpm_pdphy_clear_tx_control_reg_def kernel_defs events_since_def Let_def
  sizeof_header_def case_prod_beta all_ok_Suc eval_nat_numeral or.assoc

text \<open>\<^verbatim>\<open>pdphy_enable\<close>, once the supply is on, in the same way.\<close>

lemma enable_paths:
  fixes r :: "nat \<Rightarrow> int"
  assumes "r 1 \<noteq> 0 \<Longrightarrow> P"
    "\<lbrakk>r 1 = 0; r 2 \<noteq> 0\<rbrakk> \<Longrightarrow> P"
    "\<lbrakk>r 1 = 0; r 2 = 0; r 3 \<noteq> 0\<rbrakk> \<Longrightarrow> P"
    "\<lbrakk>r 1 = 0; r 2 = 0; r 3 = 0; r 4 \<noteq> 0\<rbrakk> \<Longrightarrow> P"
    "\<lbrakk>r 1 = 0; r 2 = 0; r 3 = 0; r 4 = 0\<rbrakk> \<Longrightarrow> P"
  shows P
  using assms by blast

lemmas enable_defs =
  qcom_pmic_tcpm_pdphy_enable_def pdphy_enable_done_def regmap_update_bits_def
  qcom_pmic_tcpm_pdphy_reset_off_def kernel_defs events_since_def
  Let_def case_prod_beta all_ok_Suc eval_nat_numeral

lemmas pd_receive_defs =
  qcom_pmic_tcpm_pdphy_pd_receive_def pd_receive_done_def kernel_defs events_since_def
  Let_def case_prod_beta all_ok_Suc eval_nat_numeral

lemmas set_roles_defs =
  qcom_pmic_tcpm_pdphy_set_roles_def regmap_update_bits_def kernel_defs events_since_def
  Let_def case_prod_beta all_ok_Suc eval_nat_numeral

lemmas eval_defs =
  idle_def mainline_defs_def nth_ret_def all_ok_def events_since_def
  call_ret_def emit_def regmap_write_def regmap_read_def regmap_bulk_read_def
  regmap_bulk_write_def regmap_update_bits_def regulator_enable_def regulator_disable_def
  kernel_defs sizeof_header_def sizeof_payload_def header_bytes_def Let_def

section \<open>Arithmetic of the registers\<close>

lemma txsize_arith:
  fixes cnt :: u32
  assumes "cnt \<le> 7"
  shows "unat ((2 + 4 * cnt) - 1) = (2 + 4 * unat cnt) - 1"
    and "unat ((2 + 4 * cnt) - 1) = 1 + unat (cnt * 4)"
    and "(cnt * 4 = 0) = (cnt = 0)"
proof -
  from assms have u: "unat cnt \<le> 7"
    by (simp add: word_le_nat_alt)
  then have m: "unat (4 * cnt) = 4 * unat cnt"
    by (simp add: unat_word_ariths)
  have e: "(2 + 4 * cnt) - 1 = 1 + 4 * cnt"
    by simp
  from u m have a: "unat (1 + 4 * cnt) = 1 + 4 * unat cnt"
    by (simp add: unat_word_ariths)
  from a show "unat ((2 + 4 * cnt) - 1) = (2 + 4 * unat cnt) - 1"
    unfolding e by simp
  from a m show "unat ((2 + 4 * cnt) - 1) = 1 + unat (cnt * 4)"
    unfolding e by (simp add: mult.commute)
  from m show "(cnt * 4 = 0) = (cnt = 0)"
    by (metis mult.commute mult_eq_0_iff unat_eq_0 zero_neq_numeral)
qed

lemma rx_size_plus_1:
  fixes n :: u32
  assumes "n \<le> sizeof_payload"
  shows "unat (n + 1) = unat n + 1"
proof -
  from assms have "unat n \<le> 28"
    by (simp add: word_le_nat_alt sizeof_payload_def)
  then show ?thesis
    by (simp add: unat_word_ariths)
qed

lemma update_field:
  fixes x v m :: u32
  shows "((x AND NOT m) OR (v AND m)) AND NOT m = x AND NOT m"
    and "r AND m = 0 \<Longrightarrow> ((x AND NOT m) OR (v AND m)) AND r = x AND r"
proof -
  show "((x AND NOT m) OR (v AND m)) AND NOT m = x AND NOT m"
    by (rule bit_eqI) (auto simp: bit_simps)
  assume "r AND m = 0"
  then have "\<And>n. \<not> (bit r n \<and> bit m n)"
    by (metis bit_and_iff bit_0_eq bot_apply bot_bool_def)
  then show "((x AND NOT m) OR (v AND m)) AND r = x AND r"
    by - (rule bit_eqI, auto simp: bit_simps)
qed

lemma roles_bits:
  fixes x :: u32
  shows "bit ((x AND NOT 12) OR
           ((push_bit 3 (of_bool h) OR push_bit 2 (of_bool p)) AND 12)) 3 = h"
    and "bit ((x AND NOT 12) OR
           ((push_bit 3 (of_bool h) OR push_bit 2 (of_bool p)) AND 12)) 2 = p"
  by (simp_all add: bit_simps)

section \<open>The claims\<close>

subsection \<open>C1: the retry count\<close>

text \<open>
  C1, as amended. Every value written to the TX control register by a transmit
  operation is the 0 of a clear or the control value, and the control value carries
  \<open>TX_CONTROL_RETRY_COUNT(2)\<close> when the revision is 3.0 and \<open>TX_CONTROL_RETRY_COUNT(3)\<close>
  for every other revision. For a signal (no message) the revision is \<open>negotiated_rev\<close>.
  For a message it is the revision in the message header, and \<open>negotiated_rev\<close> has no
  part in it. The control value is written once the calls before it have succeeded (and,
  for a message, the RX acknowledge register has read 0).
\<close>

theorem transmit_retry_count:
  "writes_to USB_PDPHY_TX_CONTROL_REG (events_since s
       (snd (qcom_pmic_tcpm_pdphy_pd_transmit d type None negotiated_rev s))) =
     0 # (if all_ok 2 s
          then [if type = TCPC_TX_CABLE_RESET d \<or> type = TCPC_TX_HARD_RESET d
                then TX_CONTROL_SEND_SIGNAL d OR
                     TX_CONTROL_RETRY_COUNT d (if negotiated_rev = PD_REV30 d then 2 else 3) OR
                     TX_CONTROL_FRAME_TYPE d 1
                else TX_CONTROL_SEND_SIGNAL d OR
                     TX_CONTROL_RETRY_COUNT d (if negotiated_rev = PD_REV30 d then 2 else 3)]
          else [])
   \<and> writes_to USB_PDPHY_TX_CONTROL_REG (events_since s
       (snd (qcom_pmic_tcpm_pdphy_pd_transmit d type (Some msg) negotiated_rev s))) =
     (if regmap s (USB_PDPHY_RX_ACKNOWLEDGE_REG, 0) = 0 \<and> all_ok 1 s then [0] else []) @
     (if regmap s (USB_PDPHY_RX_ACKNOWLEDGE_REG, 0) = 0 \<and>
         all_ok (if pd_header_cnt_le d (header msg) * 4 = 0 then 5 else 6) s
      then [0] else []) @
     (if regmap s (USB_PDPHY_RX_ACKNOWLEDGE_REG, 0) = 0 \<and>
         all_ok (if pd_header_cnt_le d (header msg) * 4 = 0 then 7 else 8) s
      then [TX_CONTROL_FRAME_TYPE d type OR TX_CONTROL_SEND_MSG d OR
            TX_CONTROL_RETRY_COUNT d
              (if pd_header_rev d (header msg) = PD_REV30 d then 2 else 3)]
      else [])"
proof
  show "writes_to USB_PDPHY_TX_CONTROL_REG (events_since s
       (snd (qcom_pmic_tcpm_pdphy_pd_transmit d type None negotiated_rev s))) =
     0 # (if all_ok 2 s
          then [if type = TCPC_TX_CABLE_RESET d \<or> type = TCPC_TX_HARD_RESET d
                then TX_CONTROL_SEND_SIGNAL d OR
                     TX_CONTROL_RETRY_COUNT d (if negotiated_rev = PD_REV30 d then 2 else 3) OR
                     TX_CONTROL_FRAME_TYPE d 1
                else TX_CONTROL_SEND_SIGNAL d OR
                     TX_CONTROL_RETRY_COUNT d (if negotiated_rev = PD_REV30 d then 2 else 3)]
          else [])"
    by (simp add: qcom_pmic_tcpm_pdphy_pd_transmit_def
        qcom_pmic_tcpm_pdphy_pd_transmit_signal_def pd_transmit_signal_done_def
        qcom_pmic_tcpm_pdphy_clear_tx_control_reg_def kernel_defs events_since_def Let_def
        case_prod_beta all_ok_Suc eval_nat_numeral or.assoc)
next
  show "writes_to USB_PDPHY_TX_CONTROL_REG (events_since s
       (snd (qcom_pmic_tcpm_pdphy_pd_transmit d type (Some msg) negotiated_rev s))) =
     (if regmap s (USB_PDPHY_RX_ACKNOWLEDGE_REG, 0) = 0 \<and> all_ok 1 s then [0] else []) @
     (if regmap s (USB_PDPHY_RX_ACKNOWLEDGE_REG, 0) = 0 \<and>
         all_ok (if pd_header_cnt_le d (header msg) * 4 = 0 then 5 else 6) s
      then [0] else []) @
     (if regmap s (USB_PDPHY_RX_ACKNOWLEDGE_REG, 0) = 0 \<and>
         all_ok (if pd_header_cnt_le d (header msg) * 4 = 0 then 7 else 8) s
      then [TX_CONTROL_FRAME_TYPE d type OR TX_CONTROL_SEND_MSG d OR
            TX_CONTROL_RETRY_COUNT d
              (if pd_header_rev d (header msg) = PD_REV30 d then 2 else 3)]
      else [])"
    by (rule transmit_payload_paths [where r = "nth_ret (rets s)"
          and a = "regmap s (USB_PDPHY_RX_ACKNOWLEDGE_REG, 0)"
          and n = "pd_header_cnt_le d (header msg) * 4"])
       (simp_all add: qcom_pmic_tcpm_pdphy_pd_transmit_def transmit_payload_defs)
qed

text \<open>
  C1 as the spec states it (retry count 2 whenever \<open>negotiated_rev\<close> is 3.0, also for a
  message) fails: a message whose header says revision 2.0, sent with \<open>negotiated_rev\<close> 3.0,
  is written with retry count 3. With the mainline values the control value is \<open>0x61\<close>:
  send-message bit 1, retry count 3 in bits 6 to 5.
\<close>

theorem transmit_payload_retry_counterexample:
  "PD_REV30 mainline_defs = 2
   \<and> pd_header_rev mainline_defs 0x0040 = PD_REV20 mainline_defs
   \<and> writes_to USB_PDPHY_TX_CONTROL_REG (events_since idle
       (snd (qcom_pmic_tcpm_pdphy_pd_transmit mainline_defs 0
               (Some \<lparr>header = 0x0040, payload = []\<rparr>) 2 idle))) =
      [0, 0, TX_CONTROL_FRAME_TYPE mainline_defs 0 OR TX_CONTROL_SEND_MSG mainline_defs OR
             TX_CONTROL_RETRY_COUNT mainline_defs 3]
   \<and> TX_CONTROL_FRAME_TYPE mainline_defs 0 OR TX_CONTROL_SEND_MSG mainline_defs OR
       TX_CONTROL_RETRY_COUNT mainline_defs 3 \<noteq>
     TX_CONTROL_FRAME_TYPE mainline_defs 0 OR TX_CONTROL_SEND_MSG mainline_defs OR
       TX_CONTROL_RETRY_COUNT mainline_defs 2"
  by (simp add: eval_defs qcom_pmic_tcpm_pdphy_pd_transmit_def
      qcom_pmic_tcpm_pdphy_pd_transmit_payload_def pd_transmit_payload_done_def
      qcom_pmic_tcpm_pdphy_clear_tx_control_reg_def)

subsection \<open>C2: a receive with a size out of range\<close>

text \<open>
  What the code does when the RX size register reads a value outside 1..28 and the
  read itself succeeds: it logs the size, unlocks, and then, \<^verbatim>\<open>ret\<close> still being the 0 of
  the successful read, hands \<^verbatim>\<open>msg\<close> to the port manager as the stack left it.
\<close>

lemma pd_receive_invalid_size:
  assumes "regmap s (USB_PDPHY_RX_SIZE_REG, 0) < 1 \<or>
           sizeof_payload < regmap s (USB_PDPHY_RX_SIZE_REG, 0)"
    and "all_ok 1 s"
  shows "events_since s (qcom_pmic_tcpm_pdphy_pd_receive msg0 s) =
     [Spin_lock_irqsave,
      Regmap_read USB_PDPHY_RX_SIZE_REG,
      Dev_dbg ''pd_receive: invalid size %d'',
      Spin_unlock_irqrestore,
      Dev_vdbg ''pd_receive: handing %d bytes to tcpm'',
      Tcpm_pd_receive msg0]"
  using assms by (simp add: pd_receive_defs)

text \<open>
  C2 at the size 0: no acknowledge write is made, as C2 says, but a message is
  delivered, which C2 excludes. The message is the 30 bytes the stack held.
\<close>

theorem pd_receive_size_zero:
  "regmap idle (USB_PDPHY_RX_SIZE_REG, 0) = 0
   \<and> events_since idle (qcom_pmic_tcpm_pdphy_pd_receive (replicate 30 0xAA) idle) =
     [Spin_lock_irqsave,
      Regmap_read USB_PDPHY_RX_SIZE_REG,
      Dev_dbg ''pd_receive: invalid size %d'',
      Spin_unlock_irqrestore,
      Dev_vdbg ''pd_receive: handing %d bytes to tcpm'',
      Tcpm_pd_receive (replicate 30 0xAA)]"
  by (simp add: eval_defs qcom_pmic_tcpm_pdphy_pd_receive_def pd_receive_done_def)

subsection \<open>C3: reset on\<close>

text \<open>
  C3, as amended. \<^verbatim>\<open>reset_on\<close> writes 0 to the TX control register and then 0 to the
  frame filter register. A failure of either write is logged. When the first write fails
  the function leaves through its \<^verbatim>\<open>err\<close> label and the second write is not attempted;
  when the first write succeeds the second is attempted.
\<close>

theorem reset_on_events:
  "events_since s (qcom_pmic_tcpm_pdphy_reset_on s) =
     (if nth_ret (rets s) 0 \<noteq> 0
      then [Regmap_write USB_PDPHY_TX_CONTROL_REG 0, Dev_err ''pd_reset_on error'']
      else if nth_ret (rets s) 1 \<noteq> 0
      then [Regmap_write USB_PDPHY_TX_CONTROL_REG 0, Regmap_write USB_PDPHY_FRAME_FILTER_REG 0,
            Dev_err ''pd_reset_on error'']
      else [Regmap_write USB_PDPHY_TX_CONTROL_REG 0, Regmap_write USB_PDPHY_FRAME_FILTER_REG 0])"
  by (simp add: qcom_pmic_tcpm_pdphy_reset_on_def kernel_defs events_since_def case_prod_beta)

text \<open>
  C3 as the spec states it fails: when the first write returns \<open>-5\<close>, the run is the
  write to the TX control register and the log line, and no write to the frame filter
  register is attempted.
\<close>

theorem reset_on_first_write_fails:
  "nth_ret (rets (idle\<lparr>rets := [- 5]\<rparr>)) 0 \<noteq> 0 \<and>
   events_since (idle\<lparr>rets := [- 5]\<rparr>) (qcom_pmic_tcpm_pdphy_reset_on (idle\<lparr>rets := [- 5]\<rparr>)) =
     [Regmap_write USB_PDPHY_TX_CONTROL_REG 0, Dev_err ''pd_reset_on error''] \<and>
   writes_to USB_PDPHY_FRAME_FILTER_REG
     (events_since (idle\<lparr>rets := [- 5]\<rparr>) (qcom_pmic_tcpm_pdphy_reset_on (idle\<lparr>rets := [- 5]\<rparr>))) = []"
  by (simp add: idle_def qcom_pmic_tcpm_pdphy_reset_on_def regmap_write_def call_ret_def
      emit_def dev_err_def events_since_def nth_ret_def)

subsection \<open>C4: transmit while a received message is pending\<close>

text \<open>
  C4. When the first read of the RX acknowledge register succeeds and returns a value
  other than 0, \<^verbatim>\<open>pd_transmit_payload\<close> returns \<open>-EBUSY\<close>, makes no register write, single
  or bulk, and leaves the registers as they were.
\<close>

theorem transmit_payload_busy:
  assumes "all_ok 1 s"
    and "regmap s (USB_PDPHY_RX_ACKNOWLEDGE_REG, 0) \<noteq> 0"
  shows "fst (qcom_pmic_tcpm_pdphy_pd_transmit_payload d type msg negotiated_rev s) = - EBUSY d
    \<and> filter is_write (events_since s
         (snd (qcom_pmic_tcpm_pdphy_pd_transmit_payload d type msg negotiated_rev s))) = []
    \<and> regmap (snd (qcom_pmic_tcpm_pdphy_pd_transmit_payload d type msg negotiated_rev s)) =
        regmap s"
  using assms
  by (simp add: qcom_pmic_tcpm_pdphy_pd_transmit_payload_def pd_transmit_payload_done_def
      kernel_defs events_since_def Let_def case_prod_beta all_ok_Suc)

text \<open>A run of C4: the RX acknowledge register holds 1.\<close>

theorem transmit_payload_busy_witness:
  "fst (qcom_pmic_tcpm_pdphy_pd_transmit_payload mainline_defs 0
         \<lparr>header = 0x0040, payload = []\<rparr> 1
         (idle\<lparr>regmap := (regmap idle)((USB_PDPHY_RX_ACKNOWLEDGE_REG, 0) := 1)\<rparr>)) = - 16
   \<and> filter is_write (events_since
         (idle\<lparr>regmap := (regmap idle)((USB_PDPHY_RX_ACKNOWLEDGE_REG, 0) := 1)\<rparr>)
         (snd (qcom_pmic_tcpm_pdphy_pd_transmit_payload mainline_defs 0
         \<lparr>header = 0x0040, payload = []\<rparr> 1
         (idle\<lparr>regmap := (regmap idle)((USB_PDPHY_RX_ACKNOWLEDGE_REG, 0) := 1)\<rparr>)))) = []"
  using transmit_payload_busy [of
      "idle\<lparr>regmap := (regmap idle)((USB_PDPHY_RX_ACKNOWLEDGE_REG, 0) := 1)\<rparr>"
      mainline_defs 0 "\<lparr>header = 0x0040, payload = []\<rparr>" 1]
  by (simp add: idle_def all_ok_def mainline_defs_def)

subsection \<open>C5: a receive with a size in range\<close>

text \<open>
  C5. When the RX size register reads a value from 1 to 28 and the four register
  accesses succeed, \<^verbatim>\<open>pd_receive\<close> reads the size and the status, reads size + 1 bytes
  from the RX buffer, writes 0 to the RX acknowledge register once, unlocks, and only
  then makes its one call of \<^verbatim>\<open>tcpm_pd_receive\<close>, with a message that starts with the
  size + 1 bytes read.
\<close>

theorem pd_receive_valid_size:
  assumes "1 \<le> regmap s (USB_PDPHY_RX_SIZE_REG, 0)"
    and "regmap s (USB_PDPHY_RX_SIZE_REG, 0) \<le> sizeof_payload"
    and "all_ok 4 s"
  shows "events_since s (qcom_pmic_tcpm_pdphy_pd_receive msg0 s) =
     [Spin_lock_irqsave,
      Regmap_read USB_PDPHY_RX_SIZE_REG,
      Regmap_read USB_PDPHY_RX_STATUS_REG,
      Regmap_bulk_read USB_PDPHY_RX_BUFFER_REG (unat (regmap s (USB_PDPHY_RX_SIZE_REG, 0)) + 1),
      Regmap_write USB_PDPHY_RX_ACKNOWLEDGE_REG 0,
      Spin_unlock_irqrestore,
      Dev_vdbg ''pd_receive: handing %d bytes to tcpm'',
      Tcpm_pd_receive
        (map (\<lambda>i. ucast (regmap s (USB_PDPHY_RX_BUFFER_REG, i)))
           [0..<unat (regmap s (USB_PDPHY_RX_SIZE_REG, 0)) + 1] @
         drop (unat (regmap s (USB_PDPHY_RX_SIZE_REG, 0)) + 1) msg0)]"
proof -
  from assms(1) have lo: "regmap s (USB_PDPHY_RX_SIZE_REG, 0) \<noteq> 0"
    by auto
  from assms(2) have hi: "\<not> sizeof_payload < regmap s (USB_PDPHY_RX_SIZE_REG, 0)"
    by (simp add: not_less)
  note n = rx_size_plus_1 [OF assms(2)]
  from assms(3) lo hi show ?thesis
    by (simp add: pd_receive_defs n)
qed

text \<open>A run of C5: the size register holds 1, so two bytes are read and delivered.\<close>

theorem pd_receive_valid_size_witness:
  "events_since (idle\<lparr>regmap := (regmap idle)((USB_PDPHY_RX_SIZE_REG, 0) := 1,
        (USB_PDPHY_RX_BUFFER_REG, 0) := 0x41, (USB_PDPHY_RX_BUFFER_REG, 1) := 0x10)\<rparr>)
     (qcom_pmic_tcpm_pdphy_pd_receive [0xAA, 0xAA, 0xAA, 0xAA]
       (idle\<lparr>regmap := (regmap idle)((USB_PDPHY_RX_SIZE_REG, 0) := 1,
        (USB_PDPHY_RX_BUFFER_REG, 0) := 0x41, (USB_PDPHY_RX_BUFFER_REG, 1) := 0x10)\<rparr>)) =
     [Spin_lock_irqsave,
      Regmap_read USB_PDPHY_RX_SIZE_REG,
      Regmap_read USB_PDPHY_RX_STATUS_REG,
      Regmap_bulk_read USB_PDPHY_RX_BUFFER_REG 2,
      Regmap_write USB_PDPHY_RX_ACKNOWLEDGE_REG 0,
      Spin_unlock_irqrestore,
      Dev_vdbg ''pd_receive: handing %d bytes to tcpm'',
      Tcpm_pd_receive [0x41, 0x10, 0xAA, 0xAA]]"
  using pd_receive_valid_size [of "idle\<lparr>regmap := (regmap idle)((USB_PDPHY_RX_SIZE_REG, 0) := 1,
        (USB_PDPHY_RX_BUFFER_REG, 0) := 0x41, (USB_PDPHY_RX_BUFFER_REG, 1) := 0x10)\<rparr>"
        "[0xAA, 0xAA, 0xAA, 0xAA]"]
  by (simp add: idle_def all_ok_def sizeof_payload_def upt_rec)

subsection \<open>C6: the deferred hard reset\<close>

text \<open>
  C6. Every run of the reset work takes the lock, makes the writes of \<^verbatim>\<open>reset_on\<close> (one
  when the first fails, else two), then the write of \<^verbatim>\<open>reset_off\<close>, releases the lock,
  and after that makes its one call into the port manager, \<^verbatim>\<open>tcpm_pd_hard_reset\<close>.
\<close>

theorem sig_reset_work_events:
  "events_since s (qcom_pmic_tcpm_pdphy_sig_reset_work d s) =
     [Spin_lock_irqsave] @
     (if nth_ret (rets s) 0 \<noteq> 0
      then [Regmap_write USB_PDPHY_TX_CONTROL_REG 0, Dev_err ''pd_reset_on error'']
      else if nth_ret (rets s) 1 \<noteq> 0
      then [Regmap_write USB_PDPHY_TX_CONTROL_REG 0, Regmap_write USB_PDPHY_FRAME_FILTER_REG 0,
            Dev_err ''pd_reset_on error'']
      else [Regmap_write USB_PDPHY_TX_CONTROL_REG 0, Regmap_write USB_PDPHY_FRAME_FILTER_REG 0]) @
     [Regmap_write USB_PDPHY_FRAME_FILTER_REG
        (FRAME_FILTER_EN_SOP d OR FRAME_FILTER_EN_HARD_RESET d)] @
     (if nth_ret (rets s) (if nth_ret (rets s) 0 \<noteq> 0 then 1 else 2) \<noteq> 0
      then [Dev_err ''pd_reset_off error''] else []) @
     [Spin_unlock_irqrestore, Tcpm_pd_hard_reset]
   \<and> filter is_write (events_since s (qcom_pmic_tcpm_pdphy_sig_reset_work d s)) =
     (if nth_ret (rets s) 0 \<noteq> 0
      then [Regmap_write USB_PDPHY_TX_CONTROL_REG 0]
      else [Regmap_write USB_PDPHY_TX_CONTROL_REG 0, Regmap_write USB_PDPHY_FRAME_FILTER_REG 0]) @
     [Regmap_write USB_PDPHY_FRAME_FILTER_REG
        (FRAME_FILTER_EN_SOP d OR FRAME_FILTER_EN_HARD_RESET d)]
   \<and> filter is_notification (events_since s (qcom_pmic_tcpm_pdphy_sig_reset_work d s)) =
     [Tcpm_pd_hard_reset]"
  by (simp add: qcom_pmic_tcpm_pdphy_sig_reset_work_def reset_on_sel reset_off_sel
      kernel_defs events_since_def numeral_2_eq_2)

text \<open>A run of C6 in which every write succeeds.\<close>

theorem sig_reset_work_witness:
  "events_since idle (qcom_pmic_tcpm_pdphy_sig_reset_work mainline_defs idle) =
     [Spin_lock_irqsave,
      Regmap_write USB_PDPHY_TX_CONTROL_REG 0,
      Regmap_write USB_PDPHY_FRAME_FILTER_REG 0,
      Regmap_write USB_PDPHY_FRAME_FILTER_REG 33,
      Spin_unlock_irqrestore,
      Tcpm_pd_hard_reset]"
  using sig_reset_work_events [of idle mainline_defs]
  by (simp add: idle_def mainline_defs_def nth_ret_def)

subsection \<open>C7: the TX size\<close>

text \<open>
  C7. For a message with at most 7 objects, the value \<^verbatim>\<open>pd_transmit_payload\<close> writes to
  the TX size register is \<open>(2 + 4 * objectCount) - 1\<close>, as a 32-bit value and as a number:
  1 for a message with no object, and 1 plus the payload length in every case. The write
  is made once, when the RX acknowledge register has read 0 and the calls before it (4
  without a payload, 5 with one) have succeeded, and not at all otherwise.
\<close>

theorem transmit_payload_tx_size:
  assumes "pd_header_cnt_le d (header msg) \<le> 7"
  shows "writes_to USB_PDPHY_TX_SIZE_REG (events_since s
       (snd (qcom_pmic_tcpm_pdphy_pd_transmit_payload d type msg negotiated_rev s))) =
     (if regmap s (USB_PDPHY_RX_ACKNOWLEDGE_REG, 0) = 0 \<and>
         all_ok (if pd_header_cnt_le d (header msg) = 0 then 4 else 5) s
      then [(2 + 4 * pd_header_cnt_le d (header msg)) - 1] else [])
    \<and> unat ((2 + 4 * pd_header_cnt_le d (header msg)) - 1) =
        (2 + 4 * unat (pd_header_cnt_le d (header msg))) - 1
    \<and> unat ((2 + 4 * pd_header_cnt_le d (header msg)) - 1) =
        1 + unat (pd_header_cnt_le d (header msg) * 4)
    \<and> (if pd_header_cnt_le d (header msg) = 0
        then (2 + 4 * pd_header_cnt_le d (header msg)) - 1 = 1
        else 1 < (2 + 4 * pd_header_cnt_le d (header msg)) - 1)"
proof -
  have w: "writes_to USB_PDPHY_TX_SIZE_REG (events_since s
       (snd (qcom_pmic_tcpm_pdphy_pd_transmit_payload d type msg negotiated_rev s))) =
     (if regmap s (USB_PDPHY_RX_ACKNOWLEDGE_REG, 0) = 0 \<and>
         all_ok (if pd_header_cnt_le d (header msg) * 4 = 0 then 4 else 5) s
      then [2 + pd_header_cnt_le d (header msg) * 4 - 1] else [])"
    by (rule transmit_payload_paths [where r = "nth_ret (rets s)"
          and a = "regmap s (USB_PDPHY_RX_ACKNOWLEDGE_REG, 0)"
          and n = "pd_header_cnt_le d (header msg) * 4"])
       (simp_all add: transmit_payload_defs)
  note a = txsize_arith [OF assms]
  have gt: "pd_header_cnt_le d (header msg) \<noteq> 0 \<Longrightarrow>
      1 < (2 + 4 * pd_header_cnt_le d (header msg)) - 1"
    using a(1) by (simp add: word_less_nat_alt unat_gt_0)
  show ?thesis
    using w a gt by (simp add: mult.commute)
qed

text \<open>A run of C7: two objects at revision 2.0, 8 bytes of payload, TX size 9.\<close>

theorem transmit_payload_tx_size_witness:
  "pd_header_cnt_le mainline_defs 0x2040 \<le> 7
   \<and> writes_to USB_PDPHY_TX_SIZE_REG (events_since idle
       (snd (qcom_pmic_tcpm_pdphy_pd_transmit_payload mainline_defs 0
          \<lparr>header = 0x2040, payload = [1, 2, 3, 4, 5, 6, 7, 8]\<rparr> 1 idle))) = [9]"
proof -
  have v: "pd_header_cnt_le mainline_defs (header \<lparr>header = 0x2040, payload = [1, 2, 3, 4, 5, 6, 7, 8 :: u8]\<rparr>) \<le> 7"
    by (simp add: mainline_defs_def)
  from transmit_payload_tx_size [OF v, of idle 0 1] show ?thesis
    by (simp add: mainline_defs_def idle_def all_ok_def)
qed

subsection \<open>C8: enable\<close>

text \<open>
  C8, as amended. Once the supply is on, \<^verbatim>\<open>pdphy_enable\<close> returns the first failure among
  the read and the write of the revision field and the two writes of the PHY enable
  register; it returns 0 exactly when these four calls succeed, and the supply is switched
  off exactly when one of them fails. The write of \<^verbatim>\<open>reset_off\<close>, call number 5, has no
  part in the result.
\<close>

theorem enable_failures:
  assumes "all_ok 1 s"
  shows "fst (qcom_pmic_tcpm_pdphy_enable d s) =
      (if nth_ret (rets s) 1 \<noteq> 0 then nth_ret (rets s) 1
       else if nth_ret (rets s) 2 \<noteq> 0 then nth_ret (rets s) 2
       else if nth_ret (rets s) 3 \<noteq> 0 then nth_ret (rets s) 3
       else nth_ret (rets s) 4)
    \<and> (fst (qcom_pmic_tcpm_pdphy_enable d s) = 0) = all_ok 5 s
    \<and> vdd_pdphy (snd (qcom_pmic_tcpm_pdphy_enable d s)) = all_ok 5 s
    \<and> (Regulator_disable \<in> set (events_since s (snd (qcom_pmic_tcpm_pdphy_enable d s)))) =
        (\<not> all_ok 5 s)"
  using assms
  by - (rule enable_paths [where r = "nth_ret (rets s)"], simp_all add: enable_defs)

text \<open>A run of C8, amended: the first write of the PHY enable register fails.\<close>

theorem enable_failures_witness:
  "fst (qcom_pmic_tcpm_pdphy_enable mainline_defs (idle\<lparr>rets := [0, 0, 0, - 5]\<rparr>)) = - 5
   \<and> \<not> vdd_pdphy (snd (qcom_pmic_tcpm_pdphy_enable mainline_defs
         (idle\<lparr>rets := [0, 0, 0, - 5]\<rparr>)))
   \<and> Regulator_disable \<in> set (events_since (idle\<lparr>rets := [0, 0, 0, - 5]\<rparr>)
       (snd (qcom_pmic_tcpm_pdphy_enable mainline_defs (idle\<lparr>rets := [0, 0, 0, - 5]\<rparr>))))"
  using enable_failures [of "idle\<lparr>rets := [0, 0, 0, - 5]\<rparr>" mainline_defs]
  by (simp add: idle_def all_ok_def nth_ret_def)

text \<open>
  C8 as the spec states it fails for \<^verbatim>\<open>reset_off\<close>: when its write fails, the failure
  is logged, the supply stays on and \<^verbatim>\<open>pdphy_enable\<close> returns 0.
\<close>

theorem enable_reset_off_fails:
  "nth_ret (rets (idle\<lparr>rets := [0, 0, 0, 0, 0, - 5]\<rparr>)) 5 \<noteq> 0
   \<and> fst (qcom_pmic_tcpm_pdphy_enable mainline_defs (idle\<lparr>rets := [0, 0, 0, 0, 0, - 5]\<rparr>)) = 0
   \<and> vdd_pdphy (snd (qcom_pmic_tcpm_pdphy_enable mainline_defs
         (idle\<lparr>rets := [0, 0, 0, 0, 0, - 5]\<rparr>)))
   \<and> events_since (idle\<lparr>rets := [0, 0, 0, 0, 0, - 5]\<rparr>)
       (snd (qcom_pmic_tcpm_pdphy_enable mainline_defs (idle\<lparr>rets := [0, 0, 0, 0, 0, - 5]\<rparr>))) =
      [Regulator_enable,
       Regmap_read USB_PDPHY_MSG_CONFIG_REG,
       Regmap_write USB_PDPHY_MSG_CONFIG_REG 1,
       Regmap_write USB_PDPHY_EN_CONTROL_REG 0,
       Regmap_write USB_PDPHY_EN_CONTROL_REG 1,
       Regmap_write USB_PDPHY_FRAME_FILTER_REG 33,
       Dev_err ''pd_reset_off error'']"
  by (simp add: eval_defs qcom_pmic_tcpm_pdphy_enable_def pdphy_enable_done_def
      qcom_pmic_tcpm_pdphy_reset_off_def)

subsection \<open>C9: the interrupt dispatcher\<close>

text \<open>
  C9. The handler does one thing per event and nothing else: it logs for tx-signal,
  schedules the reset work for rx-signal, reports the one matching completion status for
  msg-tx-ok, msg-tx-fail and msg-tx-discarded, runs \<^verbatim>\<open>pd_receive\<close> for msg-rx, and leaves
  the state as it is for msg-rx-discarded.
\<close>

theorem isr_dispatch:
  "qcom_pmic_tcpm_pdphy_isr PMIC_PDPHY_SIG_TX_IRQ msg0 s =
     s\<lparr>trace := trace s @ [Dev_err ''isr: tx_sig'']\<rparr>
   \<and> qcom_pmic_tcpm_pdphy_isr PMIC_PDPHY_SIG_RX_IRQ msg0 s =
     s\<lparr>trace := trace s @ [Schedule_work]\<rparr>
   \<and> qcom_pmic_tcpm_pdphy_isr PMIC_PDPHY_MSG_TX_IRQ msg0 s =
     s\<lparr>trace := trace s @ [Tcpm_pd_transmit_complete TCPC_TX_SUCCESS]\<rparr>
   \<and> qcom_pmic_tcpm_pdphy_isr PMIC_PDPHY_MSG_RX_IRQ msg0 s =
     qcom_pmic_tcpm_pdphy_pd_receive msg0 s
   \<and> qcom_pmic_tcpm_pdphy_isr PMIC_PDPHY_MSG_TX_FAIL_IRQ msg0 s =
     s\<lparr>trace := trace s @ [Tcpm_pd_transmit_complete TCPC_TX_FAILED]\<rparr>
   \<and> qcom_pmic_tcpm_pdphy_isr PMIC_PDPHY_MSG_TX_DISCARD_IRQ msg0 s =
     s\<lparr>trace := trace s @ [Tcpm_pd_transmit_complete TCPC_TX_DISCARDED]\<rparr>
   \<and> qcom_pmic_tcpm_pdphy_isr PMIC_PDPHY_MSG_RX_DISCARD_IRQ msg0 s = s"
  by (simp add: qcom_pmic_tcpm_pdphy_isr_def dev_err_def schedule_work_def
      tcpm_pd_transmit_complete_def emit_def)

subsection \<open>C10: the roles\<close>

text \<open>
  C10. With the role masks at bits 3 and 2, where the driver shifts the two roles, and a
  revision mask that does not overlap them, \<^verbatim>\<open>set_roles\<close> leaves every bit of the message
  configuration register other than bits 3 and 2 as it was, the revision field among
  them, and leaves every other register as it was. When the read and the write succeed it
  returns 0, bit 3 is the data role and bit 2 the power role, and the run is one read and
  one write of that register under the lock; when one of them fails it returns the
  failure and no register has changed.
\<close>

theorem set_roles_frame:
  assumes "MSG_CONFIG_PORT_DATA_ROLE d = 8"
    and "MSG_CONFIG_PORT_POWER_ROLE d = 4"
    and "MSG_CONFIG_SPEC_REV_MASK d AND 12 = 0"
  shows "regmap (snd (qcom_pmic_tcpm_pdphy_set_roles d data_role_host power_role_src s))
           (USB_PDPHY_MSG_CONFIG_REG, 0) AND NOT 12 =
         regmap s (USB_PDPHY_MSG_CONFIG_REG, 0) AND NOT 12
    \<and> regmap (snd (qcom_pmic_tcpm_pdphy_set_roles d data_role_host power_role_src s))
           (USB_PDPHY_MSG_CONFIG_REG, 0) AND MSG_CONFIG_SPEC_REV_MASK d =
         regmap s (USB_PDPHY_MSG_CONFIG_REG, 0) AND MSG_CONFIG_SPEC_REV_MASK d
    \<and> (if all_ok 2 s
        then fst (qcom_pmic_tcpm_pdphy_set_roles d data_role_host power_role_src s) = 0
          \<and> bit (regmap (snd (qcom_pmic_tcpm_pdphy_set_roles d data_role_host power_role_src s))
                 (USB_PDPHY_MSG_CONFIG_REG, 0)) 3 = data_role_host
          \<and> bit (regmap (snd (qcom_pmic_tcpm_pdphy_set_roles d data_role_host power_role_src s))
                 (USB_PDPHY_MSG_CONFIG_REG, 0)) 2 = power_role_src
          \<and> events_since s
               (snd (qcom_pmic_tcpm_pdphy_set_roles d data_role_host power_role_src s)) =
              [Spin_lock_irqsave,
               Regmap_read USB_PDPHY_MSG_CONFIG_REG,
               Regmap_write USB_PDPHY_MSG_CONFIG_REG
                 ((regmap s (USB_PDPHY_MSG_CONFIG_REG, 0) AND NOT 12) OR
                  ((push_bit 3 (of_bool data_role_host) OR
                    push_bit 2 (of_bool power_role_src)) AND 12)),
               Spin_unlock_irqrestore,
               Dev_dbg ''pdphy_set_roles: data_role_host=%d power_role_src=%d'']
        else fst (qcom_pmic_tcpm_pdphy_set_roles d data_role_host power_role_src s) \<noteq> 0
          \<and> regmap (snd (qcom_pmic_tcpm_pdphy_set_roles d data_role_host power_role_src s)) =
              regmap s)
    \<and> (\<forall>reg i. (reg, i) \<noteq> (USB_PDPHY_MSG_CONFIG_REG, 0) \<longrightarrow>
          regmap (snd (qcom_pmic_tcpm_pdphy_set_roles d data_role_host power_role_src s))
            (reg, i) = regmap s (reg, i))"
proof -
  define old where "old = regmap s (USB_PDPHY_MSG_CONFIG_REG, 0)"
  define new where "new = (old AND NOT 12) OR
    ((push_bit 3 (of_bool data_role_host) OR push_bit 2 (of_bool power_role_src)) AND 12)"
  define s' where "s' = snd (qcom_pmic_tcpm_pdphy_set_roles d data_role_host power_role_src s)"
  define ret where "ret = fst (qcom_pmic_tcpm_pdphy_set_roles d data_role_host power_role_src s)"
  have m: "MSG_CONFIG_PORT_DATA_ROLE d OR MSG_CONFIG_PORT_POWER_ROLE d = 12"
    using assms(1,2) by simp
  have st: "regmap s' = (if all_ok 2 s then (regmap s)((USB_PDPHY_MSG_CONFIG_REG, 0) := new)
                         else regmap s)"
    unfolding s'_def new_def old_def by (simp add: set_roles_defs m)
  have rt: "(ret = 0) = all_ok 2 s"
    unfolding ret_def by (simp add: set_roles_defs)
  have ev: "all_ok 2 s \<Longrightarrow> events_since s s' =
      [Spin_lock_irqsave,
       Regmap_read USB_PDPHY_MSG_CONFIG_REG,
       Regmap_write USB_PDPHY_MSG_CONFIG_REG new,
       Spin_unlock_irqrestore,
       Dev_dbg ''pdphy_set_roles: data_role_host=%d power_role_src=%d'']"
    unfolding s'_def new_def old_def by (simp add: set_roles_defs m)
  have f1: "new AND NOT 12 = old AND NOT 12"
    unfolding new_def by (rule update_field(1))
  have f2: "new AND MSG_CONFIG_SPEC_REV_MASK d = old AND MSG_CONFIG_SPEC_REV_MASK d"
    unfolding new_def by (rule update_field(2) [OF assms(3)])
  have b3: "bit new 3 = data_role_host" and b2: "bit new 2 = power_role_src"
    unfolding new_def by (rule roles_bits)+
  have "regmap s' (USB_PDPHY_MSG_CONFIG_REG, 0) AND NOT 12 = old AND NOT 12
    \<and> regmap s' (USB_PDPHY_MSG_CONFIG_REG, 0) AND MSG_CONFIG_SPEC_REV_MASK d =
        old AND MSG_CONFIG_SPEC_REV_MASK d
    \<and> (if all_ok 2 s
        then ret = 0
          \<and> bit (regmap s' (USB_PDPHY_MSG_CONFIG_REG, 0)) 3 = data_role_host
          \<and> bit (regmap s' (USB_PDPHY_MSG_CONFIG_REG, 0)) 2 = power_role_src
          \<and> events_since s s' =
              [Spin_lock_irqsave,
               Regmap_read USB_PDPHY_MSG_CONFIG_REG,
               Regmap_write USB_PDPHY_MSG_CONFIG_REG new,
               Spin_unlock_irqrestore,
               Dev_dbg ''pdphy_set_roles: data_role_host=%d power_role_src=%d'']
        else ret \<noteq> 0 \<and> regmap s' = regmap s)
    \<and> (\<forall>reg i. (reg, i) \<noteq> (USB_PDPHY_MSG_CONFIG_REG, 0) \<longrightarrow>
          regmap s' (reg, i) = regmap s (reg, i))"
  proof (cases "all_ok 2 s")
    case True
    with st rt ev f1 f2 b3 b2 show ?thesis
      by (simp add: old_def)
  next
    case False
    with st rt show ?thesis
      by (simp add: old_def)
  qed
  then show ?thesis
    unfolding s'_def ret_def new_def old_def .
qed

text \<open>A run of C10: host and sink, on a register that holds revision 2.0 and the source bit.\<close>

theorem set_roles_frame_witness:
  "regmap (snd (qcom_pmic_tcpm_pdphy_set_roles mainline_defs True False
       (idle\<lparr>regmap := (regmap idle)((USB_PDPHY_MSG_CONFIG_REG, 0) := 0x05)\<rparr>)))
     (USB_PDPHY_MSG_CONFIG_REG, 0) = 0x09"
  using set_roles_frame [of mainline_defs True False
      "idle\<lparr>regmap := (regmap idle)((USB_PDPHY_MSG_CONFIG_REG, 0) := 0x05)\<rparr>"]
  by (simp add: eval_defs qcom_pmic_tcpm_pdphy_set_roles_def)

end
